theory Spec2Isabelle
  imports Main
begin

section \<open>Ring exchange of a model between processes (agn.py)\<close>

text \<open>
  The script parses its command line into a dictionary of settings, initialises a
  process group and then runs one of two loops that pass a model around a ring of
  processes: \<open>optimize_master\<close> on rank 0 and \<open>optimize\<close> on every other rank.
  This theory embeds the functions of the script as HOL functions and proves properties
  of them.

  Conventions of the embedding.
  \<^item> Python values that occur in the settings dictionary are values of \<open>pyval\<close>; the
    dictionary is a map from key strings to such values.
  \<^item> An exception is a value of \<open>py_error\<close>. A function that only computes returns
    \<open>py_error + 'a\<close>; a function that performs calls to the outside returns an
    \<open>outcome\<close>: the calls performed, in order, and the exception that ended it, if any.
  \<^item> The calls to the outside are the events of \<open>event\<close>: \<open>dist.init_process_group\<close>,
    \<open>send_model\<close>, \<open>receive_model\<close> and the \<open>print\<close> of \<open>usage\<close>. They are assumed to
    return normally; the transport behind them is not part of the script.
  \<^item> \<open>sys.argv\<close> is an explicit argument \<open>argv\<close>. The built-in conversion \<open>int\<close> of a
    \<open>str\<close> is an explicit argument \<open>conv\<close>, which yields \<open>None\<close> where \<open>int\<close> raises.
    The tensor library's \<open>copy_\<close> is an explicit argument \<open>tensor_copy\<close> in the same way.
\<close>

subsection \<open>Values, exceptions and events\<close>

datatype pyval = PyNone | PyBool bool | PyInt int | PyStr string

datatype py_error = KeyError | TypeError | IndexError | ZeroDivisionError | RuntimeError

type_synonym settings = "string \<rightharpoonup> pyval"

datatype event =
    InitProcessGroup pyval pyval pyval pyval
  | SendModel int
  | ReceiveModel int
  | PrintUsage

type_synonym outcome = "event list \<times> py_error option"

text \<open>
  \<open>InitProcessGroup method rank world_size backend\<close> is the call
  \<open>dist.init_process_group(init_method=method, rank=rank, world_size=world_size,
  backend=backend)\<close>; \<open>SendModel d\<close> is a call \<open>send_model(model, d)\<close> and
  \<open>ReceiveModel s\<close> a call \<open>receive_model(model, s)\<close>.
\<close>

definition bind_res :: "py_error + 'a \<Rightarrow> ('a \<Rightarrow> py_error + 'b) \<Rightarrow> py_error + 'b" where
  "bind_res m f = (case m of Inl e \<Rightarrow> Inl e | Inr x \<Rightarrow> f x)"

definition then_outcome :: "outcome \<Rightarrow> outcome \<Rightarrow> outcome" where
  "then_outcome a b =
     (case snd a of
        Some e \<Rightarrow> a
      | None \<Rightarrow> (fst a @ fst b, snd b))"

text \<open>Subscription \<open>settings[key]\<close> raises \<open>KeyError\<close> on a missing key.\<close>

definition getitem :: "settings \<Rightarrow> string \<Rightarrow> py_error + pyval" where
  "getitem settings key = (case settings key of None \<Rightarrow> Inl KeyError | Some v \<Rightarrow> Inr v)"

text \<open>
  The integer a value stands for in arithmetic and in comparison with a number:
  \<open>bool\<close> is a subclass of \<open>int\<close>; \<open>None\<close> and \<open>str\<close> are not numbers.
\<close>

fun as_int :: "pyval \<Rightarrow> int option" where
  "as_int (PyInt n) = Some n"
| "as_int (PyBool b) = Some (if b then 1 else 0)"
| "as_int PyNone = None"
| "as_int (PyStr s) = None"

text \<open>Truth value of a settings value, as \<open>if settings['valid']:\<close> tests it.\<close>

fun truthy :: "pyval \<Rightarrow> bool" where
  "truthy PyNone = False"
| "truthy (PyBool b) = b"
| "truthy (PyInt n) = (n \<noteq> 0)"
| "truthy (PyStr s) = (s \<noteq> [])"

subsection \<open>Ring neighbours\<close>

text \<open>
  Both loops compute \<open>next_rank = (rank + 1) % world_size\<close> and
  \<open>previous_rank = (rank - 1) % world_size\<close>. Python's \<open>%\<close> on integers takes the sign of
  the divisor, as \<open>mod\<close> on \<open>int\<close> does, and raises \<open>ZeroDivisionError\<close> for the divisor 0.
\<close>

definition next_rank :: "int \<Rightarrow> int \<Rightarrow> int" where
  "next_rank rank world_size = (rank + 1) mod world_size"

definition previous_rank :: "int \<Rightarrow> int \<Rightarrow> int" where
  "previous_rank rank world_size = (rank - 1) mod world_size"

definition neighbours :: "pyval \<Rightarrow> pyval \<Rightarrow> py_error + (int \<times> int)" where
  "neighbours rank world_size =
     (case as_int rank of
        None \<Rightarrow> Inl TypeError
      | Some r \<Rightarrow>
          (case as_int world_size of
             None \<Rightarrow> Inl TypeError
           | Some w \<Rightarrow>
               if w = 0 then Inl ZeroDivisionError
               else Inr (next_rank r w, previous_rank r w)))"

text \<open>The formulas of the specification, for comparison with the code's.\<close>

definition spec_next :: "int \<Rightarrow> int \<Rightarrow> int" where
  "spec_next rank world_size = (rank + 1) mod world_size"

definition spec_previous :: "int \<Rightarrow> int \<Rightarrow> int" where
  "spec_previous rank world_size = (rank - 1 + world_size) mod world_size"

subsection \<open>The two loops\<close>

text \<open>
  The body shared by the \<open>for\<close> loops of \<open>optimize_master\<close> and \<open>optimize\<close>:
  \<open>receive_model(model, previous_rank)\<close> then \<open>send_model(model, next_rank)\<close>, run
  \<open>k\<close> times. \<open>range(0, n)\<close> has \<open>n\<close> elements for \<open>n \<ge> 0\<close> and none otherwise.
\<close>

primrec exchange_loop :: "nat \<Rightarrow> int \<Rightarrow> int \<Rightarrow> event list" where
  "exchange_loop 0 previous next = []"
| "exchange_loop (Suc k) previous next =
     ReceiveModel previous # SendModel next # exchange_loop k previous next"

definition range_len :: "int \<Rightarrow> nat" where
  "range_len n = (if n < 0 then 0 else nat n)"

definition settings_for_loop :: "settings \<Rightarrow> py_error + (pyval \<times> int \<times> int)" where
  "settings_for_loop settings =
     bind_res (getitem settings ''rank'') (\<lambda>rank.
     bind_res (getitem settings ''world_size'') (\<lambda>world_size.
     bind_res (getitem settings ''num_iterations'') (\<lambda>num_iterations.
     bind_res (neighbours rank world_size) (\<lambda>(next, previous).
     Inr (num_iterations, next, previous)))))"

text \<open>
  \<open>optimize_master\<close>: the arithmetic \<open>num_iterations - 1\<close> is evaluated after the first
  \<open>send_model\<close>, so a \<open>TypeError\<close> there leaves one event behind.
\<close>

definition optimize_master :: "settings \<Rightarrow> outcome" where
  "optimize_master settings =
     (case settings_for_loop settings of
        Inl e \<Rightarrow> ([], Some e)
      | Inr (num_iterations, next, previous) \<Rightarrow>
          (case as_int num_iterations of
             None \<Rightarrow> ([SendModel next], Some TypeError)
           | Some n \<Rightarrow>
               (SendModel next # exchange_loop (range_len (n - 1)) previous next
                  @ [ReceiveModel previous], None)))"

definition optimize :: "settings \<Rightarrow> outcome" where
  "optimize settings =
     (case settings_for_loop settings of
        Inl e \<Rightarrow> ([], Some e)
      | Inr (num_iterations, next, previous) \<Rightarrow>
          (case as_int num_iterations of
             None \<Rightarrow> ([], Some TypeError)
           | Some n \<Rightarrow> (exchange_loop (range_len n) previous next, None)))"

definition is_master :: "pyval \<Rightarrow> bool" where
  "is_master rank = (as_int rank = Some 0)"

subsection \<open>Command-line settings\<close>

text \<open>
  \<open>sys.argv.index(key)\<close> is the position of the first occurrence of \<open>key\<close>. The script
  calls it only under the guard \<open>key in sys.argv\<close>.
\<close>

primrec index_of :: "'a list \<Rightarrow> 'a \<Rightarrow> nat" where
  "index_of [] x = 0"
| "index_of (y # ys) x = (if y = x then 0 else Suc (index_of ys x))"

definition store_argument_key ::
    "string list \<Rightarrow> settings \<Rightarrow> string \<Rightarrow> string \<Rightarrow> pyval \<Rightarrow> settings" where
  "store_argument_key argv settings key store_in default_value =
     (if key \<in> set argv \<and> index_of argv key + 1 < length argv
      then settings(store_in \<mapsto> PyStr (argv ! (index_of argv key + 1)))
      else settings(store_in \<mapsto> default_value))"

text \<open>
  The built-in \<open>int\<close> applied to a settings value: \<open>None\<close> where it raises. On a \<open>str\<close>
  it is the parameter \<open>conv\<close>.
\<close>

fun py_int :: "(string \<Rightarrow> int option) \<Rightarrow> pyval \<Rightarrow> int option" where
  "py_int conv PyNone = None"
| "py_int conv (PyBool b) = Some (if b then 1 else 0)"
| "py_int conv (PyInt n) = Some n"
| "py_int conv (PyStr s) = conv s"

text \<open>
  The \<open>type\<close> argument of \<open>validate_argument_key\<close>. The script passes \<open>'int'\<close> and
  \<open>'string'\<close> only; its branch for \<open>'float'\<close> is never taken and floating-point values
  are not part of this embedding.
\<close>

datatype argtype = IntType | StringType

text \<open>
  \<open>validate_argument_key\<close> returns its flag and updates the dictionary in place; the
  embedding returns the flag and the dictionary. The bare \<open>except\<close> catches every
  exception of the conversion.
\<close>

definition validate_argument_key ::
    "(string \<Rightarrow> int option) \<Rightarrow> settings \<Rightarrow> string \<Rightarrow> argtype \<Rightarrow> bool \<times> settings" where
  "validate_argument_key conv settings key ty =
     (case settings key of
        None \<Rightarrow> (False, settings)
      | Some v \<Rightarrow>
          (case ty of
             IntType \<Rightarrow>
               (case py_int conv v of
                  None \<Rightarrow> (False, settings)
                | Some n \<Rightarrow> (True, settings(key \<mapsto> PyInt n)))
           | StringType \<Rightarrow> (True, settings)))"

definition stored_arguments :: "string list \<Rightarrow> settings" where
  "stored_arguments argv =
     (let settings = Map.empty;
          settings = store_argument_key argv settings ''--rank'' ''rank'' PyNone;
          settings = store_argument_key argv settings ''--world-size'' ''world_size'' PyNone;
          settings = store_argument_key argv settings ''--annouce-port'' ''announce_port''
                       (PyInt 5001);
          settings = store_argument_key argv settings ''--communication-frequency''
                       ''communication_frequency'' (PyInt 15);
          settings = store_argument_key argv settings ''--backend'' ''backend'' (PyStr ''tcp'');
          settings = store_argument_key argv settings ''--master'' ''master''
                       (PyStr ''127.0.0.1'');
          settings = store_argument_key argv settings ''--master-port'' ''master_port''
                       (PyInt 5000);
          settings = store_argument_key argv settings ''--iterations'' ''num_iterations''
                       (PyInt 1000)
      in settings)"

definition validated_arguments ::
    "(string \<Rightarrow> int option) \<Rightarrow> settings \<Rightarrow> bool \<times> settings" where
  "validated_arguments conv settings0 =
     (let valid = True;
          (v, settings) = validate_argument_key conv settings0 ''rank'' IntType;
          valid = (valid \<and> v);
          (v, settings) = validate_argument_key conv settings ''world_size'' IntType;
          valid = (valid \<and> v);
          (v, settings) = validate_argument_key conv settings ''announce_port'' IntType;
          valid = (valid \<and> v);
          (v, settings) = validate_argument_key conv settings ''communication_frequency'' IntType;
          valid = (valid \<and> v);
          (v, settings) = validate_argument_key conv settings ''backend'' StringType;
          valid = (valid \<and> v);
          (v, settings) = validate_argument_key conv settings ''master'' StringType;
          valid = (valid \<and> v);
          (v, settings) = validate_argument_key conv settings ''master_port'' IntType;
          valid = (valid \<and> v);
          (v, settings) = validate_argument_key conv settings ''num_iterations'' IntType;
          valid = (valid \<and> v)
      in (valid, settings))"

text \<open>
  \<open>parse_arguments\<close>: the eight \<open>store_argument_key\<close> calls, the eight
  \<open>validate_argument_key\<close> calls accumulated with \<open>valid &= ...\<close>, and the flag stored
  under \<open>'valid'\<close>.
\<close>

definition parse_arguments :: "(string \<Rightarrow> int option) \<Rightarrow> string list \<Rightarrow> settings" where
  "parse_arguments conv argv =
     (let (valid, settings) = validated_arguments conv (stored_arguments argv)
      in settings(''valid'' \<mapsto> PyBool valid))"

subsection \<open>The entry point\<close>

text \<open>\<open>str\<close> of a settings value; decimal digits for an integer.\<close>

fun str_nat :: "nat \<Rightarrow> string" where
  "str_nat n =
     (if n < 10 then [''0123456789'' ! n]
      else str_nat (n div 10) @ [''0123456789'' ! (n mod 10)])"

declare str_nat.simps [simp del]

fun py_str :: "pyval \<Rightarrow> string" where
  "py_str PyNone = ''None''"
| "py_str (PyBool b) = (if b then ''True'' else ''False'')"
| "py_str (PyInt n) = (if n < 0 then CHR ''-'' # str_nat (nat (- n)) else str_nat (nat n))"
| "py_str (PyStr s) = s"

text \<open>
  \<open>distributed_backend + '://' + master_orchestrator + ':' + str(master_orchestrator_port)\<close>:
  \<open>+\<close> with a \<open>str\<close> on one side raises \<open>TypeError\<close> unless the other side is a \<open>str\<close>.
\<close>

definition init_method :: "pyval \<Rightarrow> pyval \<Rightarrow> pyval \<Rightarrow> py_error + pyval" where
  "init_method backend master master_port =
     (case backend of
        PyStr b \<Rightarrow>
          (case master of
             PyStr m \<Rightarrow> Inr (PyStr (b @ ''://'' @ m @ '':'' @ py_str master_port))
           | _ \<Rightarrow> Inl TypeError)
      | _ \<Rightarrow> Inl TypeError)"

definition usage :: outcome where
  "usage = ([PrintUsage], None)"

definition initialize :: "settings \<Rightarrow> py_error + (pyval \<times> event)" where
  "initialize settings =
     bind_res (getitem settings ''backend'') (\<lambda>distributed_backend.
     bind_res (getitem settings ''master'') (\<lambda>master_orchestrator.
     bind_res (getitem settings ''master_port'') (\<lambda>master_orchestrator_port.
     bind_res (getitem settings ''rank'') (\<lambda>rank.
     bind_res (getitem settings ''world_size'') (\<lambda>world_size.
     bind_res (init_method distributed_backend master_orchestrator master_orchestrator_port)
       (\<lambda>method.
     Inr (rank, InitProcessGroup method rank world_size distributed_backend)))))))"

text \<open>
  \<open>run\<close> is the body of \<open>main\<close> after \<open>parse_arguments\<close>; \<open>main\<close> applies it to the
  parsed command line.
\<close>

definition run :: "settings \<Rightarrow> outcome" where
  "run settings =
     (case getitem settings ''valid'' of
        Inl e \<Rightarrow> ([], Some e)
      | Inr valid \<Rightarrow>
          if truthy valid then
            (case initialize settings of
               Inl e \<Rightarrow> ([], Some e)
             | Inr (rank, init) \<Rightarrow>
                 then_outcome ([init], None)
                   (if is_master rank then optimize_master settings else optimize settings))
          else usage)"

definition main :: "(string \<Rightarrow> int option) \<Rightarrow> string list \<Rightarrow> outcome" where
  "main conv argv = run (parse_arguments conv argv)"

subsection \<open>Copying a parameter list into a model\<close>

text \<open>
  A model is the list of its parameter slots, in the order of \<open>model.parameters()\<close>.
  The call \<open>p.data.copy_(v)\<close> belongs to the tensor library, not to the script: it is
  the parameter \<open>tensor_copy\<close>, where \<open>tensor_copy p v\<close> is the slot after the call, or \<open>None\<close> where
  the library raises \<open>RuntimeError\<close> (the source \<open>v\<close> does not fit the shape of the slot)
  and leaves the slot as it was. Indexing a list raises \<open>IndexError\<close> out of range and
  counts a negative index from the end.
\<close>

definition py_index :: "'a list \<Rightarrow> int \<Rightarrow> py_error + 'a" where
  "py_index xs i =
     (if 0 \<le> i \<and> i < int (length xs) then Inr (xs ! nat i)
      else if i < 0 \<and> - int (length xs) \<le> i then Inr (xs ! nat (int (length xs) + i))
      else Inl IndexError)"

text \<open>
  The loop of \<open>set_parameterization\<close> over the slots still to visit, with the current
  value of \<open>i\<close>. It returns the slots as they are afterwards, the value of \<open>i\<close> used at
  each slot that was written, and the exception that stopped it, if any. An exception
  leaves the slot it occurred at, and every later slot, untouched.
\<close>

fun set_parameterization_loop ::
    "('t \<Rightarrow> 't \<Rightarrow> 't option) \<Rightarrow> 't list \<Rightarrow> 't list \<Rightarrow> int
       \<Rightarrow> 't list \<times> int list \<times> py_error option" where
  "set_parameterization_loop tensor_copy [] parameters i = ([], [], None)"
| "set_parameterization_loop tensor_copy (p # ps) parameters i =
     (case py_index parameters i of
        Inl e \<Rightarrow> (p # ps, [], Some e)
      | Inr v \<Rightarrow>
          (case tensor_copy p v of
             None \<Rightarrow> (p # ps, [], Some RuntimeError)
           | Some p' \<Rightarrow>
               (case set_parameterization_loop tensor_copy ps parameters (i + i) of
                  (ps', used, err) \<Rightarrow> (p' # ps', i # used, err))))"

definition set_parameterization ::
    "('t \<Rightarrow> 't \<Rightarrow> 't option) \<Rightarrow> 't list \<Rightarrow> 't list
       \<Rightarrow> 't list \<times> int list \<times> py_error option" where
  "set_parameterization tensor_copy model parameters =
     set_parameterization_loop tensor_copy model parameters 0"



subsection \<open>A conversion for concrete command lines\<close>

text \<open>
  The properties below hold for every conversion \<open>conv\<close>. To evaluate concrete command
  lines, \<open>decimal_int\<close> reads an optional sign followed by one or more ASCII digits and
  rejects every other string. On the strings used below (\<open>'0'\<close>, \<open>'1'\<close>, \<open>'2'\<close>, \<open>'3'\<close>
  and \<open>'abc'\<close>) it gives what the built-in \<open>int\<close> gives; the built-in accepts further
  forms, such as surrounding white space, that no command line below contains.
\<close>

definition digit_value :: "char \<Rightarrow> nat option" where
  "digit_value c =
     (if c \<in> set ''0123456789'' then Some (index_of ''0123456789'' c) else None)"

fun decimal_digits :: "nat \<Rightarrow> string \<Rightarrow> nat option" where
  "decimal_digits acc [] = Some acc"
| "decimal_digits acc (c # cs) =
     (case digit_value c of
        None \<Rightarrow> None
      | Some d \<Rightarrow> decimal_digits (10 * acc + d) cs)"

fun decimal_int :: "string \<Rightarrow> int option" where
  "decimal_int [] = None"
| "decimal_int (c # cs) =
     (if c = CHR ''-'' then (if cs = [] then None else map_option (\<lambda>n. - int n) (decimal_digits 0 cs))
      else if c = CHR ''+'' then (if cs = [] then None else map_option int (decimal_digits 0 cs))
      else map_option int (decimal_digits 0 (c # cs)))"

subsection \<open>Counting the exchanges of a trace\<close>

fun is_send :: "event \<Rightarrow> bool" where
  "is_send (SendModel d) = True"
| "is_send e = False"

fun is_receive :: "event \<Rightarrow> bool" where
  "is_receive (ReceiveModel s) = True"
| "is_receive e = False"

definition sends :: "event list \<Rightarrow> nat" where
  "sends t = length (filter is_send t)"

definition receives :: "event list \<Rightarrow> nat" where
  "receives t = length (filter is_receive t)"

subsection \<open>Auxiliary notions for the command line\<close>

text \<open>
  The value \<open>store_argument_key\<close> stores for a key: the argument that follows the first
  occurrence of the key, or the default. And the value \<open>validate_argument_key\<close> leaves
  under a key of type \<open>'int'\<close>: the converted integer, or the value as it was.
\<close>

definition argument_value :: "string list \<Rightarrow> string \<Rightarrow> pyval \<Rightarrow> pyval" where
  "argument_value argv key default_value =
     (if key \<in> set argv \<and> index_of argv key + 1 < length argv
      then PyStr (argv ! (index_of argv key + 1))
      else default_value)"

definition converted :: "(string \<Rightarrow> int option) \<Rightarrow> pyval \<Rightarrow> pyval" where
  "converted conv v = (case py_int conv v of None \<Rightarrow> v | Some n \<Rightarrow> PyInt n)"

definition convertible :: "(string \<Rightarrow> int option) \<Rightarrow> pyval \<Rightarrow> bool" where
  "convertible conv v = (py_int conv v \<noteq> None)"

section \<open>Properties\<close>

subsection \<open>The ring\<close>

lemma next_rank_iterate:
  "((\<lambda>r. next_rank r w) ^^ k) r = (if k = 0 then r else (r + int k) mod w)"
proof (induction k)
  case 0
  show ?case by simp
next
  case (Suc k)
  show ?case
  proof (cases "k = 0")
    case True
    then show ?thesis by (simp add: next_rank_def)
  next
    case False
    have "((r + int k) mod w + 1) mod w = (r + int k + 1) mod w"
      by (simp add: mod_add_left_eq)
    with False Suc show ?thesis
      by (simp add: next_rank_def ac_simps)
  qed
qed

text \<open>
  C4. For every \<open>world_size \<ge> 1\<close> and every rank in \<open>[0, world_size)\<close>, the next
  neighbour of the previous neighbour is the rank itself, the previous neighbour of the
  next neighbour is the rank itself, and taking the next neighbour \<open>world_size\<close> times
  leads back to the rank.
\<close>

theorem ring_closure:
  assumes "1 \<le> world_size" and "0 \<le> rank" and "rank < world_size"
  shows "next_rank (previous_rank rank world_size) world_size = rank
       \<and> previous_rank (next_rank rank world_size) world_size = rank
       \<and> ((\<lambda>r. next_rank r world_size) ^^ nat world_size) rank = rank"
proof -
  have a: "next_rank (previous_rank rank world_size) world_size = rank"
    using assms by (simp add: next_rank_def previous_rank_def mod_add_left_eq)
  have b: "previous_rank (next_rank rank world_size) world_size = rank"
    using assms by (simp add: next_rank_def previous_rank_def mod_diff_left_eq)
  have "(rank + int (nat world_size)) mod world_size = rank"
    using assms by simp
  moreover have "nat world_size \<noteq> 0"
    using assms by simp
  ultimately have c: "((\<lambda>r. next_rank r world_size) ^^ nat world_size) rank = rank"
    by (simp only: next_rank_iterate if_False)
  show ?thesis
    using a b c by simp
qed

theorem ring_closure_witness:
  "(1::int) \<le> 3 \<and> (0::int) \<le> 2 \<and> (2::int) < 3
   \<and> next_rank (previous_rank 2 3) 3 = 2
   \<and> previous_rank (next_rank 2 3) 3 = 2
   \<and> ((\<lambda>r. next_rank r 3) ^^ nat 3) 2 = 2"
  using ring_closure [of 3 2] by simp

text \<open>
  C8. For every \<open>world_size \<ge> 1\<close> and every rank in \<open>[0, world_size)\<close>, the code's
  \<open>(rank - 1) % world_size\<close> equals the specification's
  \<open>(rank - 1 + world_size) mod world_size\<close> and the code's \<open>(rank + 1) % world_size\<close>
  equals the specification's next formula, so the neighbours the loops compute are the
  specification's; both lie in \<open>[0, world_size)\<close>; and for \<open>world_size = 1\<close> rank 0 is
  its own next and previous neighbour.
\<close>

theorem neighbours_refine_spec:
  assumes "1 \<le> world_size" and "0 \<le> rank" and "rank < world_size"
  shows "previous_rank rank world_size = spec_previous rank world_size
       \<and> next_rank rank world_size = spec_next rank world_size
       \<and> neighbours (PyInt rank) (PyInt world_size)
           = Inr (spec_next rank world_size, spec_previous rank world_size)
       \<and> 0 \<le> next_rank rank world_size \<and> next_rank rank world_size < world_size
       \<and> 0 \<le> previous_rank rank world_size \<and> previous_rank rank world_size < world_size
       \<and> (world_size = 1 \<longrightarrow> next_rank 0 world_size = 0 \<and> previous_rank 0 world_size = 0)"
  using assms
  by (simp add: next_rank_def previous_rank_def spec_next_def spec_previous_def neighbours_def)

theorem neighbours_refine_spec_witness:
  "(1::int) \<le> 1 \<and> (0::int) \<le> 0 \<and> (0::int) < 1
   \<and> previous_rank 0 1 = spec_previous 0 1 \<and> next_rank 0 1 = spec_next 0 1
   \<and> neighbours (PyInt 0) (PyInt 1) = Inr (0, 0)
   \<and> next_rank 0 1 = 0 \<and> previous_rank 0 1 = 0"
  using neighbours_refine_spec [of 1 0]
  by (simp add: spec_next_def spec_previous_def)

subsection \<open>The loops\<close>

lemma exchange_loop_concat:
  "exchange_loop k p n = concat (replicate k [ReceiveModel p, SendModel n])"
  by (induction k) simp_all

lemma sends_Nil: "sends [] = 0"
  by (simp add: sends_def)

lemma receives_Nil: "receives [] = 0"
  by (simp add: receives_def)

lemma sends_Cons: "sends (e # t) = (if is_send e then 1 else 0) + sends t"
  by (simp add: sends_def)

lemma receives_Cons: "receives (e # t) = (if is_receive e then 1 else 0) + receives t"
  by (simp add: receives_def)

lemma sends_append: "sends (xs @ ys) = sends xs + sends ys"
  by (simp add: sends_def)

lemma receives_append: "receives (xs @ ys) = receives xs + receives ys"
  by (simp add: receives_def)

lemma sends_exchange_loop: "sends (exchange_loop k p n) = k"
  by (induction k) (simp_all add: sends_Nil sends_Cons)

lemma receives_exchange_loop: "receives (exchange_loop k p n) = k"
  by (induction k) (simp_all add: receives_Nil receives_Cons)

lemma settings_for_loop_ints:
  assumes "settings ''rank'' = Some (PyInt r)"
    and "settings ''world_size'' = Some (PyInt w)"
    and "settings ''num_iterations'' = Some v"
    and "w \<noteq> 0"
  shows "settings_for_loop settings = Inr (v, next_rank r w, previous_rank r w)"
  using assms by (simp add: settings_for_loop_def getitem_def bind_res_def neighbours_def)

lemma optimize_master_ints:
  assumes "settings ''rank'' = Some (PyInt r)"
    and "settings ''world_size'' = Some (PyInt w)"
    and "settings ''num_iterations'' = Some (PyInt n)"
    and "w \<noteq> 0"
  shows "optimize_master settings =
           (SendModel (next_rank r w)
              # exchange_loop (range_len (n - 1)) (previous_rank r w) (next_rank r w)
              @ [ReceiveModel (previous_rank r w)], None)"
  using settings_for_loop_ints [OF assms] by (simp add: optimize_master_def)

lemma optimize_ints:
  assumes "settings ''rank'' = Some (PyInt r)"
    and "settings ''world_size'' = Some (PyInt w)"
    and "settings ''num_iterations'' = Some (PyInt n)"
    and "w \<noteq> 0"
  shows "optimize settings =
           (exchange_loop (range_len n) (previous_rank r w) (next_rank r w), None)"
  using settings_for_loop_ints [OF assms] by (simp add: optimize_def)

text \<open>
  The theorems about the loops assume a ring of non-zero size. With \<open>world_size = 0\<close>
  both loops stop with \<open>ZeroDivisionError\<close> while computing the neighbours, before any
  call of \<open>send_model\<close> or \<open>receive_model\<close>.
\<close>

lemma loops_zero_world_size:
  assumes "settings ''rank'' = Some (PyInt r)"
    and "settings ''world_size'' = Some (PyInt 0)"
    and "settings ''num_iterations'' = Some v"
  shows "optimize_master settings = ([], Some ZeroDivisionError)"
    and "optimize settings = ([], Some ZeroDivisionError)"
  using assms
  by (simp_all add: optimize_master_def optimize_def settings_for_loop_def getitem_def
      bind_res_def neighbours_def)

text \<open>
  C1. In a run with \<open>num_iterations = N \<ge> 1\<close> (and a ring of non-zero size), a process
  that runs \<open>optimize_master\<close> and a process that runs \<open>optimize\<close> each return normally
  after exactly \<open>N\<close> calls of \<open>send_model\<close> and exactly \<open>N\<close> calls of \<open>receive_model\<close>.
\<close>

theorem lap_count:
  assumes "settings ''rank'' = Some (PyInt r)"
    and "settings ''world_size'' = Some (PyInt w)"
    and "settings ''num_iterations'' = Some (PyInt n)"
    and "w \<noteq> 0"
    and "1 \<le> n"
  shows "snd (optimize_master settings) = None
       \<and> sends (fst (optimize_master settings)) = nat n
       \<and> receives (fst (optimize_master settings)) = nat n
       \<and> snd (optimize settings) = None
       \<and> sends (fst (optimize settings)) = nat n
       \<and> receives (fst (optimize settings)) = nat n"
proof -
  have k: "Suc (range_len (n - 1)) = nat n" "range_len n = nat n"
    using \<open>1 \<le> n\<close> by (simp_all add: range_len_def)
  have m: "sends (fst (optimize_master settings)) = Suc (range_len (n - 1))"
    "receives (fst (optimize_master settings)) = Suc (range_len (n - 1))"
    "snd (optimize_master settings) = None"
    unfolding optimize_master_ints [OF assms(1-4)]
    by (simp_all add: sends_exchange_loop receives_exchange_loop sends_append receives_append
        sends_Cons receives_Cons sends_Nil receives_Nil)
  have o: "sends (fst (optimize settings)) = range_len n"
    "receives (fst (optimize settings)) = range_len n"
    "snd (optimize settings) = None"
    unfolding optimize_ints [OF assms(1-4)]
    by (simp_all add: sends_exchange_loop receives_exchange_loop)
  show ?thesis
    using k m o by simp
qed

theorem lap_count_witness:
  "sends (fst (optimize_master [''rank'' \<mapsto> PyInt 0, ''world_size'' \<mapsto> PyInt 3,
      ''num_iterations'' \<mapsto> PyInt 2])) = 2
   \<and> receives (fst (optimize_master [''rank'' \<mapsto> PyInt 0, ''world_size'' \<mapsto> PyInt 3,
      ''num_iterations'' \<mapsto> PyInt 2])) = 2
   \<and> sends (fst (optimize [''rank'' \<mapsto> PyInt 1, ''world_size'' \<mapsto> PyInt 3,
      ''num_iterations'' \<mapsto> PyInt 2])) = 2
   \<and> receives (fst (optimize [''rank'' \<mapsto> PyInt 1, ''world_size'' \<mapsto> PyInt 3,
      ''num_iterations'' \<mapsto> PyInt 2])) = 2"
  using lap_count [of "[''rank'' \<mapsto> PyInt 0, ''world_size'' \<mapsto> PyInt 3,
      ''num_iterations'' \<mapsto> PyInt 2]" 0 3 2]
    lap_count [of "[''rank'' \<mapsto> PyInt 1, ''world_size'' \<mapsto> PyInt 3,
      ''num_iterations'' \<mapsto> PyInt 2]" 1 3 2]
  by simp

text \<open>
  C2. For every \<open>num_iterations \<ge> 1\<close>, the process of rank 0 running \<open>optimize_master\<close>
  performs exactly this sequence and returns: one send to the next neighbour of rank 0,
  then \<open>num_iterations - 1\<close> times a receive from the previous neighbour of rank 0
  followed by a send to the next neighbour, then one final receive from the previous
  neighbour, after which nothing else happens.
\<close>

theorem master_sequence:
  assumes "settings ''rank'' = Some (PyInt 0)"
    and "settings ''world_size'' = Some (PyInt w)"
    and "settings ''num_iterations'' = Some (PyInt n)"
    and "w \<noteq> 0"
    and "1 \<le> n"
  shows "optimize_master settings =
           ([SendModel (next_rank 0 w)]
              @ concat (replicate (nat (n - 1))
                  [ReceiveModel (previous_rank 0 w), SendModel (next_rank 0 w)])
              @ [ReceiveModel (previous_rank 0 w)], None)"
proof -
  have "range_len (n - 1) = nat (n - 1)"
    using \<open>1 \<le> n\<close> by (simp add: range_len_def)
  then show ?thesis
    unfolding optimize_master_ints [OF assms(1-4)]
    by (simp add: exchange_loop_concat)
qed

theorem master_sequence_witness:
  "optimize_master [''rank'' \<mapsto> PyInt 0, ''world_size'' \<mapsto> PyInt 3,
      ''num_iterations'' \<mapsto> PyInt 2]
     = ([SendModel 1, ReceiveModel 2, SendModel 1, ReceiveModel 2], None)
   \<and> optimize_master [''rank'' \<mapsto> PyInt 0, ''world_size'' \<mapsto> PyInt 3,
      ''num_iterations'' \<mapsto> PyInt 1]
     = ([SendModel 1, ReceiveModel 2], None)"
  using master_sequence [of "[''rank'' \<mapsto> PyInt 0, ''world_size'' \<mapsto> PyInt 3,
      ''num_iterations'' \<mapsto> PyInt 2]" 3 2]
    master_sequence [of "[''rank'' \<mapsto> PyInt 0, ''world_size'' \<mapsto> PyInt 3,
      ''num_iterations'' \<mapsto> PyInt 1]" 3 1]
  by (simp add: next_rank_def previous_rank_def numeral_2_eq_2)



lemma exchange_loop_ends:
  "k \<noteq> 0 \<Longrightarrow> exchange_loop k p n \<noteq> []
     \<and> hd (exchange_loop k p n) = ReceiveModel p
     \<and> last (exchange_loop k p n) = SendModel n"
proof (induction k)
  case 0
  then show ?case by simp
next
  case (Suc k)
  then show ?case by (cases k) simp_all
qed

text \<open>
  C5. For every \<open>num_iterations \<ge> 1\<close>, the first network operation of \<open>optimize_master\<close>
  is a send and its last is a receive; the first network operation of \<open>optimize\<close> is a
  receive and its last is a send.
\<close>

theorem first_and_last_operation:
  assumes "settings ''rank'' = Some (PyInt r)"
    and "settings ''world_size'' = Some (PyInt w)"
    and "settings ''num_iterations'' = Some (PyInt n)"
    and "w \<noteq> 0"
    and "1 \<le> n"
  shows "snd (optimize_master settings) = None
       \<and> fst (optimize_master settings) \<noteq> []
       \<and> is_send (hd (fst (optimize_master settings)))
       \<and> is_receive (last (fst (optimize_master settings)))
       \<and> snd (optimize settings) = None
       \<and> fst (optimize settings) \<noteq> []
       \<and> is_receive (hd (fst (optimize settings)))
       \<and> is_send (last (fst (optimize settings)))"
proof -
  have "range_len n \<noteq> 0"
    using \<open>1 \<le> n\<close> by (simp add: range_len_def)
  from exchange_loop_ends [OF this, of "previous_rank r w" "next_rank r w"]
  have o: "snd (optimize settings) = None \<and> fst (optimize settings) \<noteq> []
       \<and> is_receive (hd (fst (optimize settings)))
       \<and> is_send (last (fst (optimize settings)))"
    unfolding optimize_ints [OF assms(1-4)] by simp
  have m: "snd (optimize_master settings) = None
       \<and> fst (optimize_master settings) \<noteq> []
       \<and> is_send (hd (fst (optimize_master settings)))
       \<and> is_receive (last (fst (optimize_master settings)))"
    unfolding optimize_master_ints [OF assms(1-4)] by simp
  show ?thesis
    using m o by simp
qed

theorem first_and_last_operation_witness:
  "hd (fst (optimize_master [''rank'' \<mapsto> PyInt 0, ''world_size'' \<mapsto> PyInt 3,
      ''num_iterations'' \<mapsto> PyInt 2])) = SendModel 1
   \<and> is_receive (last (fst (optimize_master [''rank'' \<mapsto> PyInt 0, ''world_size'' \<mapsto> PyInt 3,
      ''num_iterations'' \<mapsto> PyInt 2])))
   \<and> is_receive (hd (fst (optimize [''rank'' \<mapsto> PyInt 1, ''world_size'' \<mapsto> PyInt 3,
      ''num_iterations'' \<mapsto> PyInt 2])))
   \<and> is_send (last (fst (optimize [''rank'' \<mapsto> PyInt 1, ''world_size'' \<mapsto> PyInt 3,
      ''num_iterations'' \<mapsto> PyInt 2])))"
proof -
  have "hd (fst (optimize_master [''rank'' \<mapsto> PyInt 0, ''world_size'' \<mapsto> PyInt 3,
      ''num_iterations'' \<mapsto> PyInt 2])) = SendModel 1"
    by (simp add: optimize_master_def settings_for_loop_def getitem_def bind_res_def
        neighbours_def next_rank_def)
  then show ?thesis
    using first_and_last_operation [of "[''rank'' \<mapsto> PyInt 0, ''world_size'' \<mapsto> PyInt 3,
        ''num_iterations'' \<mapsto> PyInt 2]" 0 3 2]
      first_and_last_operation [of "[''rank'' \<mapsto> PyInt 1, ''world_size'' \<mapsto> PyInt 3,
        ''num_iterations'' \<mapsto> PyInt 2]" 1 3 2]
    by simp
qed

subsection \<open>Parsing the command line\<close>

lemma store_argument_key_eq:
  "store_argument_key argv settings key store_in d
     = settings(store_in \<mapsto> argument_value argv key d)"
  by (simp add: store_argument_key_def argument_value_def)

lemma stored_arguments_eq:
  "stored_arguments argv =
     [''rank'' \<mapsto> argument_value argv ''--rank'' PyNone,
      ''world_size'' \<mapsto> argument_value argv ''--world-size'' PyNone,
      ''announce_port'' \<mapsto> argument_value argv ''--annouce-port'' (PyInt 5001),
      ''communication_frequency'' \<mapsto>
         argument_value argv ''--communication-frequency'' (PyInt 15),
      ''backend'' \<mapsto> argument_value argv ''--backend'' (PyStr ''tcp''),
      ''master'' \<mapsto> argument_value argv ''--master'' (PyStr ''127.0.0.1''),
      ''master_port'' \<mapsto> argument_value argv ''--master-port'' (PyInt 5000),
      ''num_iterations'' \<mapsto> argument_value argv ''--iterations'' (PyInt 1000)]"
  by (simp only: stored_arguments_def Let_def store_argument_key_eq)

lemma stored_arguments_keys:
  "stored_arguments argv ''rank'' = Some (argument_value argv ''--rank'' PyNone)"
  "stored_arguments argv ''world_size'' = Some (argument_value argv ''--world-size'' PyNone)"
  "stored_arguments argv ''announce_port''
     = Some (argument_value argv ''--annouce-port'' (PyInt 5001))"
  "stored_arguments argv ''communication_frequency''
     = Some (argument_value argv ''--communication-frequency'' (PyInt 15))"
  "stored_arguments argv ''backend'' = Some (argument_value argv ''--backend'' (PyStr ''tcp''))"
  "stored_arguments argv ''master''
     = Some (argument_value argv ''--master'' (PyStr ''127.0.0.1''))"
  "stored_arguments argv ''master_port''
     = Some (argument_value argv ''--master-port'' (PyInt 5000))"
  "stored_arguments argv ''num_iterations''
     = Some (argument_value argv ''--iterations'' (PyInt 1000))"
  "stored_arguments argv ''valid'' = None"
  by (simp_all add: stored_arguments_eq)

lemma validate_int_eq:
  "validate_argument_key conv s k IntType =
     (case s k of
        None \<Rightarrow> (False, s)
      | Some v \<Rightarrow> (convertible conv v, s(k \<mapsto> converted conv v)))"
  by (auto simp: validate_argument_key_def convertible_def converted_def map_upd_triv
      split: option.splits)

lemma validate_string_eq:
  "validate_argument_key conv s k StringType =
     (case s k of None \<Rightarrow> (False, s) | Some v \<Rightarrow> (True, s))"
  by (simp add: validate_argument_key_def split: option.splits)

lemma validated_arguments_eq:
  assumes "s ''rank'' = Some v1" and "s ''world_size'' = Some v2"
    and "s ''announce_port'' = Some v3" and "s ''communication_frequency'' = Some v4"
    and "s ''backend'' = Some v5" and "s ''master'' = Some v6"
    and "s ''master_port'' = Some v7" and "s ''num_iterations'' = Some v8"
  shows "validated_arguments conv s =
           (convertible conv v1 \<and> convertible conv v2 \<and> convertible conv v3
              \<and> convertible conv v4 \<and> convertible conv v7 \<and> convertible conv v8,
            s(''rank'' \<mapsto> converted conv v1, ''world_size'' \<mapsto> converted conv v2,
              ''announce_port'' \<mapsto> converted conv v3,
              ''communication_frequency'' \<mapsto> converted conv v4,
              ''master_port'' \<mapsto> converted conv v7,
              ''num_iterations'' \<mapsto> converted conv v8))"
  using assms
  by (simp add: validated_arguments_def validate_int_eq validate_string_eq)

lemma parse_arguments_keys:
  "parse_arguments conv argv ''valid'' =
     Some (PyBool (convertible conv (argument_value argv ''--rank'' PyNone)
       \<and> convertible conv (argument_value argv ''--world-size'' PyNone)
       \<and> convertible conv (argument_value argv ''--annouce-port'' (PyInt 5001))
       \<and> convertible conv (argument_value argv ''--communication-frequency'' (PyInt 15))
       \<and> convertible conv (argument_value argv ''--master-port'' (PyInt 5000))
       \<and> convertible conv (argument_value argv ''--iterations'' (PyInt 1000))))"
  "parse_arguments conv argv ''rank''
     = Some (converted conv (argument_value argv ''--rank'' PyNone))"
  "parse_arguments conv argv ''world_size''
     = Some (converted conv (argument_value argv ''--world-size'' PyNone))"
  "parse_arguments conv argv ''num_iterations''
     = Some (converted conv (argument_value argv ''--iterations'' (PyInt 1000)))"
  "parse_arguments conv argv ''master_port''
     = Some (converted conv (argument_value argv ''--master-port'' (PyInt 5000)))"
  "parse_arguments conv argv ''backend''
     = Some (argument_value argv ''--backend'' (PyStr ''tcp''))"
  "parse_arguments conv argv ''master''
     = Some (argument_value argv ''--master'' (PyStr ''127.0.0.1''))"
  unfolding parse_arguments_def
    validated_arguments_eq [of "stored_arguments argv", OF stored_arguments_keys(1-8)]
  by (simp_all add: stored_arguments_keys)

lemma argument_value_str: "\<exists>s. argument_value argv key (PyStr d) = PyStr s"
  by (simp add: argument_value_def)

lemma convertible_converted:
  "convertible conv v \<Longrightarrow> \<exists>n. py_int conv v = Some n \<and> converted conv v = PyInt n"
  by (auto simp: convertible_def converted_def)

lemma py_int_converted: "py_int conv v = Some n \<Longrightarrow> converted conv v = PyInt n"
  by (simp add: converted_def)

lemma py_int_convertible: "py_int conv v = Some n \<Longrightarrow> convertible conv v"
  by (simp add: convertible_def)

lemma then_outcome_single: "then_outcome ([e], None) b = (e # fst b, snd b)"
  by (simp add: then_outcome_def)

lemma run_valid:
  assumes "settings ''valid'' = Some (PyBool True)"
    and "settings ''backend'' = Some (PyStr b)"
    and "settings ''master'' = Some (PyStr m)"
    and "settings ''master_port'' = Some p"
    and "settings ''rank'' = Some (PyInt r)"
    and "settings ''world_size'' = Some w"
  shows "run settings =
           (InitProcessGroup (PyStr (b @ ''://'' @ m @ '':'' @ py_str p)) (PyInt r) w (PyStr b)
              # fst (if r = 0 then optimize_master settings else optimize settings),
            snd (if r = 0 then optimize_master settings else optimize settings))"
  using assms
  by (simp add: run_def getitem_def initialize_def bind_res_def init_method_def
      then_outcome_single is_master_def)

lemma run_invalid:
  assumes "settings ''valid'' = Some (PyBool False)"
  shows "run settings = ([PrintUsage], None)"
  using assms by (simp add: run_def getitem_def usage_def)

lemma main_of_ints:
  assumes "py_int conv (argument_value argv ''--rank'' PyNone) = Some r"
    and "py_int conv (argument_value argv ''--world-size'' PyNone) = Some w"
    and "py_int conv (argument_value argv ''--annouce-port'' (PyInt 5001)) = Some a"
    and "py_int conv (argument_value argv ''--communication-frequency'' (PyInt 15)) = Some c"
    and "py_int conv (argument_value argv ''--master-port'' (PyInt 5000)) = Some p"
    and "py_int conv (argument_value argv ''--iterations'' (PyInt 1000)) = Some n"
    and "argument_value argv ''--backend'' (PyStr ''tcp'') = PyStr b"
    and "argument_value argv ''--master'' (PyStr ''127.0.0.1'') = PyStr m"
    and "w \<noteq> 0"
  shows "parse_arguments conv argv ''valid'' = Some (PyBool True)"
    and "main conv argv =
           (InitProcessGroup (PyStr (b @ ''://'' @ m @ '':'' @ py_str (PyInt p)))
              (PyInt r) (PyInt w) (PyStr b)
            # (if r = 0
               then SendModel (next_rank r w)
                 # exchange_loop (range_len (n - 1)) (previous_rank r w) (next_rank r w)
                 @ [ReceiveModel (previous_rank r w)]
               else exchange_loop (range_len n) (previous_rank r w) (next_rank r w)),
            None)"
proof -
  let ?s = "parse_arguments conv argv"
  show v: "?s ''valid'' = Some (PyBool True)"
    using assms(1-6) by (simp add: parse_arguments_keys convertible_def)
  have r: "?s ''rank'' = Some (PyInt r)"
    using assms(1) by (simp add: parse_arguments_keys py_int_converted)
  have w: "?s ''world_size'' = Some (PyInt w)"
    using assms(2) by (simp add: parse_arguments_keys py_int_converted)
  have n: "?s ''num_iterations'' = Some (PyInt n)"
    using assms(6) by (simp add: parse_arguments_keys py_int_converted)
  have p: "?s ''master_port'' = Some (PyInt p)"
    using assms(5) by (simp add: parse_arguments_keys py_int_converted)
  have b: "?s ''backend'' = Some (PyStr b)"
    using assms(7) by (simp add: parse_arguments_keys)
  have m: "?s ''master'' = Some (PyStr m)"
    using assms(8) by (simp add: parse_arguments_keys)
  show "main conv argv =
           (InitProcessGroup (PyStr (b @ ''://'' @ m @ '':'' @ py_str (PyInt p)))
              (PyInt r) (PyInt w) (PyStr b)
            # (if r = 0
               then SendModel (next_rank r w)
                 # exchange_loop (range_len (n - 1)) (previous_rank r w) (next_rank r w)
                 @ [ReceiveModel (previous_rank r w)]
               else exchange_loop (range_len n) (previous_rank r w) (next_rank r w)),
            None)"
    unfolding main_def run_valid [of ?s, OF v b m p r w]
      optimize_master_ints [of ?s, OF r w n \<open>w \<noteq> 0\<close>]
      optimize_ints [of ?s, OF r w n \<open>w \<noteq> 0\<close>]
    by simp
qed

lemma str_nat_5000: "str_nat 5000 = ''5000''"
  by (simp add: str_nat.simps)

subsection \<open>The entry point\<close>

text \<open>
  C6. When the settings are valid, the process initialises the process group and then
  runs \<open>optimize_master\<close> if its rank is 0 and \<open>optimize\<close> otherwise; the choice is
  \<open>is_master rank\<close>, which depends on the rank alone and holds exactly for rank 0.
\<close>

theorem role_of_rank:
  assumes "parse_arguments conv argv ''valid'' = Some (PyBool True)"
  shows "\<exists>r method w backend.
           parse_arguments conv argv ''rank'' = Some (PyInt r)
         \<and> is_master (PyInt r) = (r = 0)
         \<and> main conv argv =
             (InitProcessGroup method (PyInt r) w backend
                # fst (if r = 0 then optimize_master (parse_arguments conv argv)
                       else optimize (parse_arguments conv argv)),
              snd (if r = 0 then optimize_master (parse_arguments conv argv)
                   else optimize (parse_arguments conv argv)))"
proof -
  from assms have "convertible conv (argument_value argv ''--rank'' PyNone)"
    by (simp add: parse_arguments_keys)
  then obtain r where r: "parse_arguments conv argv ''rank'' = Some (PyInt r)"
    using convertible_converted by (fastforce simp: parse_arguments_keys)
  obtain b where b: "parse_arguments conv argv ''backend'' = Some (PyStr b)"
    using argument_value_str [of argv "''--backend''" "''tcp''"]
    by (auto simp: parse_arguments_keys)
  obtain m where m: "parse_arguments conv argv ''master'' = Some (PyStr m)"
    using argument_value_str [of argv "''--master''" "''127.0.0.1''"]
    by (auto simp: parse_arguments_keys)
  obtain p where p: "parse_arguments conv argv ''master_port'' = Some p"
    by (simp add: parse_arguments_keys)
  obtain w where w: "parse_arguments conv argv ''world_size'' = Some w"
    by (simp add: parse_arguments_keys)
  have "is_master (PyInt r) = (r = 0)"
    by (simp add: is_master_def)
  with r run_valid [of "parse_arguments conv argv", OF assms b m p r w] show ?thesis
    unfolding main_def by blast
qed

theorem role_of_rank_witness:
  "parse_arguments decimal_int
     [''agn.py'', ''--rank'', ''0'', ''--world-size'', ''2'', ''--iterations'', ''1'']
     ''valid'' = Some (PyBool True)
   \<and> main decimal_int
     [''agn.py'', ''--rank'', ''0'', ''--world-size'', ''2'', ''--iterations'', ''1'']
     = ([InitProcessGroup (PyStr ''tcp://127.0.0.1:5000'') (PyInt 0) (PyInt 2) (PyStr ''tcp''),
         SendModel 1, ReceiveModel 1], None)
   \<and> parse_arguments decimal_int
     [''agn.py'', ''--rank'', ''1'', ''--world-size'', ''2'', ''--iterations'', ''1'']
     ''valid'' = Some (PyBool True)
   \<and> main decimal_int
     [''agn.py'', ''--rank'', ''1'', ''--world-size'', ''2'', ''--iterations'', ''1'']
     = ([InitProcessGroup (PyStr ''tcp://127.0.0.1:5000'') (PyInt 1) (PyInt 2) (PyStr ''tcp''),
         ReceiveModel 0, SendModel 0], None)"
proof -
  let ?a0 = "[''agn.py'', ''--rank'', ''0'', ''--world-size'', ''2'', ''--iterations'', ''1'']"
  let ?a1 = "[''agn.py'', ''--rank'', ''1'', ''--world-size'', ''2'', ''--iterations'', ''1'']"
  have h0: "parse_arguments decimal_int ?a0 ''valid'' = Some (PyBool True)"
    by (simp add: parse_arguments_keys convertible_def argument_value_def digit_value_def)
  have h1: "parse_arguments decimal_int ?a1 ''valid'' = Some (PyBool True)"
    by (simp add: parse_arguments_keys convertible_def argument_value_def digit_value_def)
  have m0: "main decimal_int ?a0
     = ([InitProcessGroup (PyStr ''tcp://127.0.0.1:5000'') (PyInt 0) (PyInt 2) (PyStr ''tcp''),
         SendModel 1, ReceiveModel 1], None)"
    using main_of_ints(2) [of decimal_int ?a0 0 2 5001 15 5000 1 "''tcp''" "''127.0.0.1''"]
    by (simp add: argument_value_def digit_value_def str_nat_5000 next_rank_def
        previous_rank_def range_len_def)
  have m1: "main decimal_int ?a1
     = ([InitProcessGroup (PyStr ''tcp://127.0.0.1:5000'') (PyInt 1) (PyInt 2) (PyStr ''tcp''),
         ReceiveModel 0, SendModel 0], None)"
    using main_of_ints(2) [of decimal_int ?a1 1 2 5001 15 5000 1 "''tcp''" "''127.0.0.1''"]
    by (simp add: argument_value_def digit_value_def str_nat_5000 next_rank_def
        previous_rank_def range_len_def)
  show ?thesis
    using role_of_rank [OF h0] role_of_rank [OF h1] h0 h1 m0 m1 by simp
qed

text \<open>
  C7. If \<open>--rank\<close> does not occur among the arguments, or the argument after its first
  occurrence fails the integer conversion, the settings are marked invalid and the
  process only prints the usage message: it neither initialises the process group nor
  sends or receives anything.
\<close>

theorem missing_or_bad_rank:
  assumes "''--rank'' \<notin> set argv
         \<or> (''--rank'' \<in> set argv \<and> index_of argv ''--rank'' + 1 < length argv
            \<and> conv (argv ! (index_of argv ''--rank'' + 1)) = None)"
  shows "parse_arguments conv argv ''valid'' = Some (PyBool False)
       \<and> main conv argv = ([PrintUsage], None)"
proof -
  from assms have "\<not> convertible conv (argument_value argv ''--rank'' PyNone)"
    by (auto simp: convertible_def argument_value_def)
  then have v: "parse_arguments conv argv ''valid'' = Some (PyBool False)"
    by (simp add: parse_arguments_keys)
  from run_invalid [of "parse_arguments conv argv", OF v] v show ?thesis
    by (simp add: main_def)
qed

theorem missing_or_bad_rank_witness:
  "''--rank'' \<notin> set [''agn.py'', ''--world-size'', ''3'']
   \<and> main decimal_int [''agn.py'', ''--world-size'', ''3''] = ([PrintUsage], None)
   \<and> decimal_int ''abc'' = None
   \<and> parse_arguments decimal_int [''agn.py'', ''--rank'', ''abc'', ''--world-size'', ''3'']
        ''valid'' = Some (PyBool False)
   \<and> main decimal_int [''agn.py'', ''--rank'', ''abc'', ''--world-size'', ''3'']
        = ([PrintUsage], None)"
proof -
  have a: "''--rank'' \<notin> set [''agn.py'', ''--world-size'', ''3'']"
    by simp
  have c: "decimal_int ''abc'' = None"
    by (simp add: digit_value_def)
  have b: "''--rank'' \<in> set [''agn.py'', ''--rank'', ''abc'', ''--world-size'', ''3'']
         \<and> index_of [''agn.py'', ''--rank'', ''abc'', ''--world-size'', ''3''] ''--rank'' + 1
             < length [''agn.py'', ''--rank'', ''abc'', ''--world-size'', ''3'']
         \<and> decimal_int ([''agn.py'', ''--rank'', ''abc'', ''--world-size'', ''3'']
             ! (index_of [''agn.py'', ''--rank'', ''abc'', ''--world-size'', ''3''] ''--rank''
                + 1)) = None"
    using c by simp
  show ?thesis
    using missing_or_bad_rank [of "[''agn.py'', ''--world-size'', ''3'']" decimal_int] a
      missing_or_bad_rank [of "[''agn.py'', ''--rank'', ''abc'', ''--world-size'', ''3'']"
        decimal_int] b c
    by blast
qed

text \<open>
  C10. A command line whose arguments all pass validation and whose \<open>--iterations\<close>
  converts to 0 is not rejected: the settings are valid and the process group is
  initialised. The process of rank 0 then performs exactly one send followed by exactly
  one receive with no cycle in between, while a process of any other rank performs no
  network operation at all, so the two kinds of process do not perform the same number
  of sends and receives.
\<close>

theorem zero_iterations:
  assumes "Option.bind (stored_arguments argv ''rank'') (py_int conv) = Some r"
    and "Option.bind (stored_arguments argv ''world_size'') (py_int conv) = Some w"
    and "Option.bind (stored_arguments argv ''announce_port'') (py_int conv) = Some a"
    and "Option.bind (stored_arguments argv ''communication_frequency'') (py_int conv) = Some c"
    and "Option.bind (stored_arguments argv ''master_port'') (py_int conv) = Some p"
    and "Option.bind (stored_arguments argv ''num_iterations'') (py_int conv) = Some 0"
    and "w \<noteq> 0"
  shows "parse_arguments conv argv ''valid'' = Some (PyBool True)
       \<and> parse_arguments conv argv ''num_iterations'' = Some (PyInt 0)
       \<and> (\<exists>method backend.
            main conv argv =
              (InitProcessGroup method (PyInt r) (PyInt w) backend
                 # (if r = 0
                    then [SendModel (next_rank 0 w), ReceiveModel (previous_rank 0 w)]
                    else []),
               None))
       \<and> sends (fst (main conv argv)) = (if r = 0 then 1 else 0)
       \<and> receives (fst (main conv argv)) = (if r = 0 then 1 else 0)"
proof -
  have r: "py_int conv (argument_value argv ''--rank'' PyNone) = Some r"
    using assms(1) by (simp add: stored_arguments_keys)
  have w: "py_int conv (argument_value argv ''--world-size'' PyNone) = Some w"
    using assms(2) by (simp add: stored_arguments_keys)
  have a: "py_int conv (argument_value argv ''--annouce-port'' (PyInt 5001)) = Some a"
    using assms(3) by (simp add: stored_arguments_keys)
  have c: "py_int conv (argument_value argv ''--communication-frequency'' (PyInt 15)) = Some c"
    using assms(4) by (simp add: stored_arguments_keys)
  have p: "py_int conv (argument_value argv ''--master-port'' (PyInt 5000)) = Some p"
    using assms(5) by (simp add: stored_arguments_keys)
  have n: "py_int conv (argument_value argv ''--iterations'' (PyInt 1000)) = Some 0"
    using assms(6) by (simp add: stored_arguments_keys)
  obtain b where b: "argument_value argv ''--backend'' (PyStr ''tcp'') = PyStr b"
    using argument_value_str by blast
  obtain m where m: "argument_value argv ''--master'' (PyStr ''127.0.0.1'') = PyStr m"
    using argument_value_str by blast
  note run = main_of_ints [of conv argv, OF r w a c p n b m \<open>w \<noteq> 0\<close>]
  have v: "parse_arguments conv argv ''valid'' = Some (PyBool True)"
    by (rule run(1))
  have i: "parse_arguments conv argv ''num_iterations'' = Some (PyInt 0)"
    using n by (simp add: parse_arguments_keys py_int_converted)
  have t: "main conv argv =
      (InitProcessGroup (PyStr (b @ ''://'' @ m @ '':'' @ py_str (PyInt p)))
         (PyInt r) (PyInt w) (PyStr b)
       # (if r = 0 then [SendModel (next_rank 0 w), ReceiveModel (previous_rank 0 w)] else []),
       None)"
    unfolding run(2) by (simp add: range_len_def)
  have s: "sends (fst (main conv argv)) = (if r = 0 then 1 else 0)"
    unfolding t by (simp add: sends_Cons sends_Nil)
  have e: "receives (fst (main conv argv)) = (if r = 0 then 1 else 0)"
    unfolding t by (simp add: receives_Cons receives_Nil)
  from t have "\<exists>method backend.
      main conv argv =
        (InitProcessGroup method (PyInt r) (PyInt w) backend
           # (if r = 0
              then [SendModel (next_rank 0 w), ReceiveModel (previous_rank 0 w)]
              else []),
         None)"
    by blast
  with v i s e show ?thesis
    by blast
qed

theorem zero_iterations_witness:
  "main decimal_int
     [''agn.py'', ''--rank'', ''0'', ''--world-size'', ''3'', ''--iterations'', ''0'']
     = ([InitProcessGroup (PyStr ''tcp://127.0.0.1:5000'') (PyInt 0) (PyInt 3) (PyStr ''tcp''),
         SendModel 1, ReceiveModel 2], None)
   \<and> sends (fst (main decimal_int
     [''agn.py'', ''--rank'', ''0'', ''--world-size'', ''3'', ''--iterations'', ''0''])) = 1
   \<and> main decimal_int
     [''agn.py'', ''--rank'', ''1'', ''--world-size'', ''3'', ''--iterations'', ''0'']
     = ([InitProcessGroup (PyStr ''tcp://127.0.0.1:5000'') (PyInt 1) (PyInt 3) (PyStr ''tcp'')],
        None)
   \<and> sends (fst (main decimal_int
     [''agn.py'', ''--rank'', ''1'', ''--world-size'', ''3'', ''--iterations'', ''0''])) = 0"
proof -
  let ?a0 = "[''agn.py'', ''--rank'', ''0'', ''--world-size'', ''3'', ''--iterations'', ''0'']"
  let ?a1 = "[''agn.py'', ''--rank'', ''1'', ''--world-size'', ''3'', ''--iterations'', ''0'']"
  have m0: "main decimal_int ?a0
     = ([InitProcessGroup (PyStr ''tcp://127.0.0.1:5000'') (PyInt 0) (PyInt 3) (PyStr ''tcp''),
         SendModel 1, ReceiveModel 2], None)"
    using main_of_ints(2) [of decimal_int ?a0 0 3 5001 15 5000 0 "''tcp''" "''127.0.0.1''"]
    by (simp add: argument_value_def digit_value_def str_nat_5000 next_rank_def
        previous_rank_def range_len_def)
  have m1: "main decimal_int ?a1
     = ([InitProcessGroup (PyStr ''tcp://127.0.0.1:5000'') (PyInt 1) (PyInt 3) (PyStr ''tcp'')],
        None)"
    using main_of_ints(2) [of decimal_int ?a1 1 3 5001 15 5000 0 "''tcp''" "''127.0.0.1''"]
    by (simp add: argument_value_def digit_value_def str_nat_5000 next_rank_def
        previous_rank_def range_len_def)
  have z0: "sends (fst (main decimal_int ?a0)) = (if (0::int) = 0 then 1 else 0)"
    using zero_iterations [of ?a0 decimal_int 0 3 5001 15 5000]
    by (simp add: stored_arguments_keys argument_value_def digit_value_def)
  have z1: "sends (fst (main decimal_int ?a1)) = (if (1::int) = 0 then 1 else 0)"
    using zero_iterations [of ?a1 decimal_int 1 3 5001 15 5000]
    by (simp add: stored_arguments_keys argument_value_def digit_value_def)
  show ?thesis
    using m0 m1 z0 z1 by simp
qed

subsection \<open>Copying a parameter list into a model\<close>


text \<open>
  The docstring asks for the tensors of the model to be set to the given parameters.
  The update \<open>i += i\<close>, a slip for \<open>i += 1\<close>, maps 0 to 0, so the index never moves: a
  call in which the library accepts \<open>parameters[0]\<close> at every slot reads index 0 at
  every slot.
\<close>

lemma set_parameterization_index_stays_zero:
  assumes "parameters \<noteq> []"
    and "\<forall>p \<in> set model. tensor_copy p (parameters ! 0) \<noteq> None"
  shows "set_parameterization tensor_copy model parameters =
           (map (\<lambda>p. the (tensor_copy p (parameters ! 0))) model,
            replicate (length model) 0, None)"
proof -
  have i: "py_index parameters 0 = Inr (parameters ! 0)"
    using assms(1) by (simp add: py_index_def)
  have "set_parameterization_loop tensor_copy model parameters 0 =
           (map (\<lambda>p. the (tensor_copy p (parameters ! 0))) model,
            replicate (length model) 0, None)"
    using assms(2) by (induction model) (auto simp: i)
  then show ?thesis
    by (simp add: set_parameterization_def)
qed




end
